theory Spec2Isabelle
  imports Main
begin

section \<open>The welcome dialog component\<close>

text \<open>
  The unit is \<^verbatim>\<open>src/components/WelcomeDialog.vue\<close>: a template that wraps its content in
  the dialog primitive of the UI library, and a script of four declarations (the props, the
  emit interface, the computed \<^verbatim>\<open>visible\<close> and two handlers). The script's only effect is a
  call of \<^verbatim>\<open>emit\<close>, so the state of a component instance is the props it currently holds
  together with the log of the events it has emitted so far, oldest first.
\<close>

subsection \<open>Props and the emit interface\<close>

text \<open>\<^verbatim>\<open>const props = defineProps<{ modelValue: boolean }>()\<close>\<close>

record props =
  modelValue :: bool

text \<open>\<^verbatim>\<open>const emit = defineEmits<{ 'update:modelValue': [value: boolean] }>()\<close>:
  one event name, one argument.\<close>

datatype event = UpdateModelValue (payload: bool)

record component =
  props :: props
  emitted :: "event list"

text \<open>A call \<^verbatim>\<open>emit(name, value)\<close> hands the event to the owner; the log records it.\<close>

definition emit :: "event \<Rightarrow> component \<Rightarrow> component" where
  "emit e s = s\<lparr>emitted := emitted s @ [e]\<rparr>"

subsection \<open>The script\<close>

text \<open>
  \<^verbatim>\<open>const visible = computed({ get: () => props.modelValue,
                                  set: (val) => emit('update:modelValue', val) })\<close>
\<close>

definition visible_get :: "component \<Rightarrow> bool" where
  "visible_get s = modelValue (props s)"

definition visible_set :: "bool \<Rightarrow> component \<Rightarrow> component" where
  "visible_set val s = emit (UpdateModelValue val) s"

text \<open>\<^verbatim>\<open>function handleConfirm() { emit('update:modelValue', false) }\<close>\<close>

definition handleConfirm :: "component \<Rightarrow> component" where
  "handleConfirm s = emit (UpdateModelValue False) s"

text \<open>\<^verbatim>\<open>function handleClosed() { emit('update:modelValue', false) }\<close>\<close>

definition handleClosed :: "component \<Rightarrow> component" where
  "handleClosed s = emit (UpdateModelValue False) s"

subsection \<open>Life cycle\<close>

text \<open>
  Running the script once creates the instance. None of its four declarations calls
  \<^verbatim>\<open>emit\<close>, so the log starts empty.
\<close>

definition mount :: "bool \<Rightarrow> component" where
  "mount v = \<lparr>props = \<lparr>modelValue = v\<rparr>, emitted = []\<rparr>"

text \<open>
  Modelled from the spec: the framework that hands the owner's flag to the component is not
  part of the source. Section 6: the prop is supplied by the parent on each render. Only
  the assignment of the new value is modelled here. The script itself registers no
  watcher on \<^verbatim>\<open>props\<close>; what the dialog primitive does when its model value changes is
  part of \<open>react\<close> below.
\<close>

definition updateProps :: "bool \<Rightarrow> component \<Rightarrow> component" where
  "updateProps v s = s\<lparr>props := (props s)\<lparr>modelValue := v\<rparr>\<rparr>"

subsection \<open>The template\<close>

text \<open>
  The attributes of the dialog primitive that bear on closing, with the strings the
  template sets.
\<close>

record el_dialog_attrs =
  title :: string
  width :: string
  css_class :: string
  closeOnClickModal :: bool
  closeOnPressEscape :: bool
  showClose :: bool

text \<open>
  Modelled from the spec: the dialog primitive and the defaults of its attributes are not
  part of the source. Section 4.1 names the closing interactions the host surface
  provides beside the acknowledgement: clicking outside the modal and an escape
  affordance; the library as shipped has both enabled, and a close button in the header,
  unless an attribute turns them off. The three strings are unset.
\<close>

definition el_dialog_defaults :: el_dialog_attrs where
  "el_dialog_defaults =
     \<lparr>title = [], width = [], css_class = [],
      closeOnClickModal = True, closeOnPressEscape = True, showClose = True\<rparr>"

text \<open>
  \<^verbatim>\<open><el-dialog v-model="visible" title="" width="480px" class="welcome-dialog"
              :close-on-click-modal="false" @closed="handleClosed">\<close>:
  the template sets four attributes and leaves the others at their defaults.
\<close>

definition welcome_dialog_attrs :: el_dialog_attrs where
  "welcome_dialog_attrs =
     el_dialog_defaults\<lparr>title := [], width := ''480px'', css_class := ''welcome-dialog'',
       closeOnClickModal := False\<rparr>"

text \<open>
  The content of the dialog's slot, one constructor for each child of
  \<^verbatim>\<open><div class="welcome-content">\<close>, in the order of the template: \<^verbatim>\<open>bg-decoration\<close>,
  \<^verbatim>\<open>warning-section\<close>, \<^verbatim>\<open>free-notice\<close>, \<^verbatim>\<open>tips-section\<close>, \<^verbatim>\<open>group-section\<close> and
  \<^verbatim>\<open>action-section\<close> (which holds the button).
\<close>

datatype panel =
  BgDecoration | WarningSection | FreeNotice | TipsSection | GroupSection | ActionSection

definition welcome_content :: "panel list" where
  "welcome_content =
     [BgDecoration, WarningSection, FreeNotice, TipsSection, GroupSection, ActionSection]"

subsection \<open>The host surface and the owner\<close>

text \<open>
  Modelled from the spec: the dialog primitive \<^verbatim>\<open>el-dialog\<close> belongs to the UI library and
  is not part of the source. Section 4.1, Rendering: a model value of \<open>True\<close> renders the
  full modal content, \<open>False\<close> renders nothing.
\<close>

definition el_dialog :: "bool \<Rightarrow> 'a list \<Rightarrow> 'a list" where
  "el_dialog mv slot = (if mv then slot else [])"

text \<open>The template binds the model of the dialog to \<^verbatim>\<open>visible\<close>, which is read here.\<close>

definition render :: "component \<Rightarrow> panel list" where
  "render s = el_dialog (visible_get s) welcome_content"

text \<open>
  Modelled from the spec: the two states of section 4.1 are not named in the source.
  \<open>Shown\<close> is the state that presents the modal content, \<open>Hidden\<close> the one that presents
  nothing.
\<close>

datatype presentation = Shown | Hidden

definition rendered_state :: "component \<Rightarrow> presentation" where
  "rendered_state s = (if render s = [] then Hidden else Shown)"

text \<open>
  Modelled from the spec: the owner of the flag (the parent that uses the component) is not
  part of the source. Section 6: the event means that the owner should set its visibility
  state to the carried value; section 3: the owner's flag is what the component receives
  as its prop.
\<close>

definition owner_update :: "event \<Rightarrow> bool \<Rightarrow> bool" where
  "owner_update e flag = payload e"

definition owner_deliver :: "event \<Rightarrow> component \<Rightarrow> component" where
  "owner_deliver e s = updateProps (owner_update e (modelValue (props s))) s"

text \<open>The owner handles the event the component emitted last, if there is one.\<close>

definition deliver_last :: "component \<Rightarrow> component" where
  "deliver_last s =
     (case emitted s of [] \<Rightarrow> s | _ # _ \<Rightarrow> owner_deliver (last (emitted s)) s)"

subsection \<open>The component inside the dialog primitive\<close>

text \<open>
  Modelled from the spec: how the dialog primitive reacts to the user, to its model value
  and to the end of its close transition is not part of the source. Section 4.1 and the
  glossary: the acknowledgement is the button of the slot; the host surface provides
  implicit close gestures; the close-completion hook fires once a dismissal's transition
  has finished, whichever gesture caused the dismissal. The library keeps a flag of its
  own for the modal being on screen: the flag follows the model value at mount and at
  every change of it, and a close gesture that is enabled clears it. When the close
  transition ends the library fires \<^verbatim>\<open>closed\<close> and then writes \<open>False\<close> to its model.
  What reaches the component comes from the template: \<^verbatim>\<open>@click="handleConfirm"\<close>,
  \<^verbatim>\<open>@closed="handleClosed"\<close>, and \<^verbatim>\<open>v-model="visible"\<close>, by which a write of the library to
  its model is a call of the setter. The scoped stylesheet of the component is
  presentation and is not modelled.
\<close>

datatype gesture = ClickConfirm | ClickOutside | PressEscape | ClickHeaderClose

datatype input = User gesture | TransitionEnd | OwnerSets bool

record system =
  inst :: component
  dlg_visible :: bool
  leaving :: bool

definition mounted :: "bool \<Rightarrow> system" where
  "mounted v = \<lparr>inst = mount v, dlg_visible = v, leaving = False\<rparr>"

definition start_close :: "system \<Rightarrow> system" where
  "start_close sys =
     (if dlg_visible sys then sys\<lparr>dlg_visible := False, leaving := True\<rparr> else sys)"

text \<open>The button is on screen while the modal is, also during its close transition.\<close>

fun user :: "el_dialog_attrs \<Rightarrow> gesture \<Rightarrow> system \<Rightarrow> system" where
  "user cfg ClickConfirm sys =
     (if dlg_visible sys \<or> leaving sys then sys\<lparr>inst := handleConfirm (inst sys)\<rparr> else sys)"
| "user cfg ClickOutside sys = (if closeOnClickModal cfg then start_close sys else sys)"
| "user cfg PressEscape sys = (if closeOnPressEscape cfg then start_close sys else sys)"
| "user cfg ClickHeaderClose sys = (if showClose cfg then start_close sys else sys)"

fun react :: "el_dialog_attrs \<Rightarrow> input \<Rightarrow> system \<Rightarrow> system" where
  "react cfg (User g) sys = user cfg g sys"
| "react cfg TransitionEnd sys =
     (if leaving sys
      then sys\<lparr>inst := visible_set False (handleClosed (inst sys)), leaving := False\<rparr>
      else sys)"
| "react cfg (OwnerSets v) sys =
     (let sys' = sys\<lparr>inst := updateProps v (inst sys)\<rparr> in
      if v = modelValue (props (inst sys)) then sys'
      else if v then sys'\<lparr>dlg_visible := True, leaving := False\<rparr>
      else start_close sys')"

fun run_sys :: "el_dialog_attrs \<Rightarrow> input list \<Rightarrow> system \<Rightarrow> system" where
  "run_sys cfg [] sys = sys"
| "run_sys cfg (i # ins) sys = run_sys cfg ins (react cfg i sys)"



section \<open>Properties\<close>

subsection \<open>Helper facts\<close>

lemma emitted_emit: "emitted (emit e s) = emitted s @ [e]"
  by (simp add: emit_def)

lemma props_emit: "props (emit e s) = props s"
  by (simp add: emit_def)

lemma emitted_updateProps: "emitted (updateProps v s) = emitted s"
  by (simp add: updateProps_def)

lemma modelValue_updateProps: "modelValue (props (updateProps v s)) = v"
  by (simp add: updateProps_def)

lemma updateProps_same: "modelValue (props s) = v \<Longrightarrow> updateProps v s = s"
  by (simp add: updateProps_def)

lemma deliver_last_if:
  "deliver_last s = (if emitted s = [] then s else owner_deliver (last (emitted s)) s)"
  by (cases "emitted s") (simp_all add: deliver_last_def)

lemma deliver_last_snoc:
  "emitted s = xs @ [e] \<Longrightarrow> deliver_last s = updateProps (payload e) s"
  by (simp add: deliver_last_if owner_deliver_def owner_update_def)

lemma emitted_start_close: "emitted (inst (start_close sys)) = emitted (inst sys)"
  by (simp add: start_close_def)

lemma emitted_user:
  "emitted (inst (user cfg g sys)) =
     emitted (inst sys) @
       (if g = ClickConfirm \<and> (dlg_visible sys \<or> leaving sys) then [UpdateModelValue False]
        else [])"
  by (cases g) (simp_all add: emitted_start_close handleConfirm_def emitted_emit)

lemma emitted_react:
  "emitted (inst (react cfg i sys)) =
     emitted (inst sys) @
       (if i = User ClickConfirm \<and> (dlg_visible sys \<or> leaving sys)
        then [UpdateModelValue False]
        else if i = TransitionEnd \<and> leaving sys
        then [UpdateModelValue False, UpdateModelValue False]
        else [])"
proof (cases i)
  case (User g)
  then show ?thesis by (simp add: emitted_user)
next
  case TransitionEnd
  then show ?thesis
    by (simp add: visible_set_def handleClosed_def emitted_emit)
next
  case (OwnerSets v)
  then show ?thesis
    by (simp add: Let_def emitted_start_close emitted_updateProps)
qed

lemma all_false_react:
  "list_all (\<lambda>e. e = UpdateModelValue False) (emitted (inst sys)) \<Longrightarrow>
     list_all (\<lambda>e. e = UpdateModelValue False) (emitted (inst (react cfg i sys)))"
  by (simp add: emitted_react)

lemma all_false_run:
  "list_all (\<lambda>e. e = UpdateModelValue False) (emitted (inst sys)) \<Longrightarrow>
     list_all (\<lambda>e. e = UpdateModelValue False) (emitted (inst (run_sys cfg ins sys)))"
proof (induction ins arbitrary: sys)
  case Nil
  then show ?case by simp
next
  case (Cons i ins)
  from Cons.prems have "list_all (\<lambda>e. e = UpdateModelValue False) (emitted (inst (react cfg i sys)))"
    by (rule all_false_react)
  then show ?case using Cons.IH by simp
qed

lemma all_false_mounted:
  "list_all (\<lambda>e. e = UpdateModelValue False) (emitted (inst (run_sys cfg ins (mounted v))))"
  by (rule all_false_run) (simp add: mounted_def mount_def)

subsection \<open>The mirror and the two handlers\<close>

text \<open>
  C1. Reading the computed \<^verbatim>\<open>visible\<close> returns the current value of the prop
  \<^verbatim>\<open>modelValue\<close>, also right after the owner changed it; writing a boolean \<open>v\<close> to it
  emits exactly one event, which carries \<open>v\<close>, and changes nothing else of the instance.
\<close>

theorem visible_mirror:
  "visible_get s = modelValue (props s)
     \<and> visible_get (updateProps b s) = b
     \<and> visible_set v s = s\<lparr>emitted := emitted s @ [UpdateModelValue v]\<rparr>
     \<and> emitted (visible_set v s) = emitted s @ [UpdateModelValue v]
     \<and> props (visible_set v s) = props s"
  by (simp add: visible_get_def visible_set_def emit_def updateProps_def)

text \<open>
  C2. Whatever the prop is, \<^verbatim>\<open>handleConfirm\<close> emits exactly one event, carrying
  \<open>False\<close>, and leaves the prop as it was.
\<close>

theorem handleConfirm_emits_false:
  "emitted (handleConfirm s) = emitted s @ [UpdateModelValue False]
     \<and> props (handleConfirm s) = props s
     \<and> emitted (handleConfirm (updateProps b (mount b0))) = [UpdateModelValue False]"
  by (simp add: handleConfirm_def emit_def updateProps_def mount_def)

text \<open>
  C3. Whatever the prop is, \<^verbatim>\<open>handleClosed\<close> emits exactly one event, carrying
  \<open>False\<close>, and leaves the prop as it was.
\<close>

theorem handleClosed_emits_false:
  "emitted (handleClosed s) = emitted s @ [UpdateModelValue False]
     \<and> props (handleClosed s) = props s
     \<and> emitted (handleClosed (updateProps b (mount b0))) = [UpdateModelValue False]"
  by (simp add: handleClosed_def emit_def updateProps_def mount_def)

text \<open>
  C10. The two handlers are the same function of the instance, and each is the setter of
  the mirror applied to \<open>False\<close>: in every state each of the three appends the one event
  carrying \<open>False\<close> to the log and changes nothing else.
\<close>

theorem handlers_equal:
  "handleConfirm = handleClosed \<and> handleConfirm = visible_set False
     \<and> handleClosed = visible_set False
     \<and> handleConfirm s = s\<lparr>emitted := emitted s @ [UpdateModelValue False]\<rparr>
     \<and> handleClosed s = s\<lparr>emitted := emitted s @ [UpdateModelValue False]\<rparr>
     \<and> visible_set False s = s\<lparr>emitted := emitted s @ [UpdateModelValue False]\<rparr>
     \<and> emitted (handleConfirm s) = emitted s @ [UpdateModelValue False]
     \<and> emitted (handleClosed s) = emitted s @ [UpdateModelValue False]
     \<and> emitted (visible_set False s) = emitted s @ [UpdateModelValue False]"
  by (simp add: fun_eq_iff handleConfirm_def handleClosed_def visible_set_def emit_def)

subsection \<open>Rendering\<close>

text \<open>
  C4. For every initial value \<open>v\<close> of the prop the rendered state is \<open>Shown\<close> exactly when
  \<open>v\<close> is true, and in every state of the instance the presentation is a function of the
  current prop alone: the full content when it is true, nothing when it is false,
  whatever the instance has emitted.
\<close>

theorem rendered_state_follows_prop:
  "(rendered_state (mount v) = Shown) = v
     \<and> (rendered_state s = Shown) = modelValue (props s)
     \<and> (rendered_state s = Hidden) = (\<not> modelValue (props s))
     \<and> render s = (if modelValue (props s) then welcome_content else [])
     \<and> render (s\<lparr>emitted := es\<rparr>) = render s
     \<and> (rendered_state (updateProps v s) = Shown) = v"
  by (simp add: rendered_state_def render_def el_dialog_def visible_get_def mount_def
      updateProps_def welcome_content_def)

subsection \<open>What is emitted\<close>

text \<open>
  C5. Whatever the attributes of the dialog, the initial prop and the sequence of user
  gestures, owner changes and transition ends, every event in the log carries \<open>False\<close>
  and none carries \<open>True\<close>. Each emitting path contributes: the acknowledgement action
  one \<open>False\<close>, and the end of a close transition two, the hook's and the one of the
  write to the mirror; acknowledging, the owner's update and the end of the transition
  give three in all.
\<close>

theorem never_emits_true:
  "list_all (\<lambda>e. e = UpdateModelValue False) (emitted (inst (run_sys cfg ins (mounted v))))
     \<and> UpdateModelValue True \<notin> set (emitted (inst (run_sys cfg ins (mounted v))))
     \<and> emitted (handleConfirm s) = emitted s @ [UpdateModelValue False]
     \<and> emitted (handleClosed s) = emitted s @ [UpdateModelValue False]
     \<and> emitted (inst (react cfg TransitionEnd (sys\<lparr>leaving := True\<rparr>))) =
         emitted (inst sys) @ [UpdateModelValue False, UpdateModelValue False]
     \<and> emitted (inst (run_sys welcome_dialog_attrs
           [User ClickConfirm, OwnerSets False, TransitionEnd] (mounted True))) =
         [UpdateModelValue False, UpdateModelValue False, UpdateModelValue False]"
proof -
  have a: "list_all (\<lambda>e. e = UpdateModelValue False)
             (emitted (inst (run_sys cfg ins (mounted v))))"
    by (rule all_false_mounted)
  then have b: "UpdateModelValue True \<notin> set (emitted (inst (run_sys cfg ins (mounted v))))"
    by (auto simp add: list_all_iff)
  have c: "emitted (inst (react cfg TransitionEnd (sys\<lparr>leaving := True\<rparr>))) =
             emitted (inst sys) @ [UpdateModelValue False, UpdateModelValue False]"
    by (subst emitted_react) simp
  have d: "emitted (inst (run_sys welcome_dialog_attrs
              [User ClickConfirm, OwnerSets False, TransitionEnd] (mounted True))) =
            [UpdateModelValue False, UpdateModelValue False, UpdateModelValue False]"
    by (simp add: mounted_def mount_def handleConfirm_def handleClosed_def visible_set_def
        emit_def updateProps_def start_close_def Let_def)
  show ?thesis
    using a b c d by (simp add: handleConfirm_def handleClosed_def emitted_emit)
qed

subsection \<open>Closing and opening\<close>




text \<open>
  C7, as the claim states it, fails: when the owner changes the prop from true to false
  on a shown dialog, the dialog closes, and at the end of the transition the hook and
  the write to the mirror run and emit twice. Without the change the end of a transition
  emits nothing.
\<close>

theorem owner_close_runs_hook:
  "emitted (inst (run_sys welcome_dialog_attrs [OwnerSets False, TransitionEnd]
       (mounted True))) = [UpdateModelValue False, UpdateModelValue False]
     \<and> emitted (inst (run_sys welcome_dialog_attrs [TransitionEnd] (mounted True))) = []"
  by (simp add: mounted_def mount_def start_close_def Let_def handleClosed_def
      visible_set_def emit_def updateProps_def)

text \<open>
  C7, amended. No change of the prop emits anything at the moment it is made, and a change
  to true emits nothing afterwards either: the mirror then reads true, the modal is on
  screen, the state is \<open>Shown\<close> and the end of a transition runs nothing. The component is
  never the source of an open transition: none of its paths changes the prop, and it
  never emits \<open>True\<close>. A change from true to false closes the dialog, and the two
  emissions of \<open>False\<close> follow when the transition ends.
\<close>

theorem owner_open_emits_nothing:
  assumes "\<not> modelValue (props (inst sys))"
  shows "emitted (inst (react cfg (OwnerSets v) t)) = emitted (inst t)
     \<and> emitted (inst (react cfg (OwnerSets True) sys)) = emitted (inst sys)
     \<and> emitted (inst (run_sys cfg [OwnerSets True, TransitionEnd] sys)) = emitted (inst sys)
     \<and> visible_get (inst (react cfg (OwnerSets True) sys)) = True
     \<and> rendered_state (inst (react cfg (OwnerSets True) sys)) = Shown
     \<and> dlg_visible (react cfg (OwnerSets True) sys) = True
     \<and> leaving (react cfg (OwnerSets True) sys) = False
     \<and> props (handleConfirm s) = props s
     \<and> props (handleClosed s) = props s
     \<and> props (visible_set b s) = props s
     \<and> UpdateModelValue True \<notin> set (emitted (inst (run_sys cfg ins (mounted v0))))
     \<and> emitted (inst (run_sys cfg [OwnerSets True, OwnerSets False, TransitionEnd] sys)) =
         emitted (inst sys) @ [UpdateModelValue False, UpdateModelValue False]"
proof -
  have a: "emitted (inst (react cfg (OwnerSets v) t)) = emitted (inst t)"
    by (subst emitted_react) simp
  have b: "emitted (inst (react cfg (OwnerSets True) sys)) = emitted (inst sys)"
    by (subst emitted_react) simp
  have c: "emitted (inst (run_sys cfg [OwnerSets True, TransitionEnd] sys)) = emitted (inst sys)"
    using assms by (simp add: Let_def emitted_updateProps)
  have d: "visible_get (inst (react cfg (OwnerSets True) sys)) = True
             \<and> rendered_state (inst (react cfg (OwnerSets True) sys)) = Shown
             \<and> dlg_visible (react cfg (OwnerSets True) sys) = True
             \<and> leaving (react cfg (OwnerSets True) sys) = False"
    using assms
    by (simp add: Let_def rendered_state_def render_def el_dialog_def visible_get_def
        updateProps_def welcome_content_def)
  have e: "props (handleConfirm s) = props s \<and> props (handleClosed s) = props s
             \<and> props (visible_set b s) = props s"
    by (simp add: handleConfirm_def handleClosed_def visible_set_def props_emit)
  have "list_all (\<lambda>e. e = UpdateModelValue False)
          (emitted (inst (run_sys cfg ins (mounted v0))))"
    by (rule all_false_mounted)
  then have f: "UpdateModelValue True \<notin> set (emitted (inst (run_sys cfg ins (mounted v0))))"
    by (auto simp add: list_all_iff)
  have g: "emitted (inst (run_sys cfg [OwnerSets True, OwnerSets False, TransitionEnd] sys)) =
             emitted (inst sys) @ [UpdateModelValue False, UpdateModelValue False]"
    using assms
    by (simp add: Let_def start_close_def updateProps_def handleClosed_def visible_set_def
        emit_def)
  show ?thesis using a b c d e f g by simp
qed

theorem owner_open_emits_nothing_witness:
  "\<not> modelValue (props (inst (mounted False)))
     \<and> emitted (inst (run_sys welcome_dialog_attrs [OwnerSets True, TransitionEnd]
           (mounted False))) = []
     \<and> dlg_visible (react welcome_dialog_attrs (OwnerSets True) (mounted False))"
proof -
  have h: "\<not> modelValue (props (inst (mounted False)))"
    by (simp add: mounted_def mount_def)
  have e0: "emitted (inst (mounted False)) = []"
    by (simp add: mounted_def mount_def)
  show ?thesis
    using h e0 owner_open_emits_nothing [OF h, of welcome_dialog_attrs]
    by simp
qed

subsection \<open>The owner's second update\<close>

text \<open>
  C8. After the acknowledgement and the owner's update, the prop is false and the dialog
  hidden; the close-completion hook then emits \<open>False\<close> a second time, and the owner's
  update for this second event changes nothing: assigning false to a flag that is
  already false leaves the flag, the instance and the rendered state as they are.
\<close>

theorem second_emission_idempotent:
  "modelValue (props (deliver_last (handleConfirm s))) = False
     \<and> rendered_state (deliver_last (handleConfirm s)) = Hidden
     \<and> emitted (handleClosed (deliver_last (handleConfirm s))) =
         emitted s @ [UpdateModelValue False, UpdateModelValue False]
     \<and> deliver_last (handleClosed (deliver_last (handleConfirm s))) =
         handleClosed (deliver_last (handleConfirm s))
     \<and> rendered_state (deliver_last (handleClosed (deliver_last (handleConfirm s)))) = Hidden
     \<and> owner_update (UpdateModelValue False) False = False
     \<and> owner_update e (owner_update e flag) = owner_update e flag"
proof -
  let ?s1 = "handleConfirm s"
  have e1: "emitted ?s1 = emitted s @ [UpdateModelValue False]"
    by (simp add: handleConfirm_def emitted_emit)
  have d1: "deliver_last ?s1 = updateProps False ?s1"
    using deliver_last_snoc [OF e1] by simp
  have p2: "modelValue (props (deliver_last ?s1)) = False"
    by (simp add: d1 modelValue_updateProps)
  let ?s3 = "handleClosed (deliver_last ?s1)"
  have e3: "emitted ?s3 = emitted s @ [UpdateModelValue False, UpdateModelValue False]"
    by (simp add: handleClosed_def emitted_emit d1 emitted_updateProps e1)
  have p3: "modelValue (props ?s3) = False"
    by (simp add: handleClosed_def props_emit p2)
  have d3: "deliver_last ?s3 = updateProps False ?s3"
    using deliver_last_snoc [of ?s3 "emitted s @ [UpdateModelValue False]" "UpdateModelValue False"]
    by (simp only: e3 append_assoc append.simps event.sel)
  have d3': "deliver_last ?s3 = ?s3"
    by (simp add: d3 updateProps_same [OF p3])
  have r2: "rendered_state (deliver_last ?s1) = Hidden"
    by (simp add: rendered_state_def render_def el_dialog_def visible_get_def p2)
  have r3: "rendered_state ?s3 = Hidden"
    by (simp add: rendered_state_def render_def el_dialog_def visible_get_def p3)
  show ?thesis
    by (simp add: p2 r2 e3 d3' r3 owner_update_def)
qed

end
